theory Spec2Isabelle
  imports Complex_Main
begin

section \<open>The host scene API\<close>

text \<open>
  The tool \<^verbatim>\<open>parm_transfer.py\<close> reads and writes the scene graph of the host
  application through the module \<^verbatim>\<open>hou\<close>, which is not part of the repository.
  This section is the model of that module; the sections after it follow the
  source of the tool.
\<close>

text \<open>
  Modelled from the spec: the scene API (module \<^verbatim>\<open>hou\<close>) of section 6 of the
  specification, restricted to the calls that \<^verbatim>\<open>ParameterItem\<close> and
  \<^verbatim>\<open>_transfer_parameter\<close> make. A parameter handle (\<^verbatim>\<open>hou.Parm\<close>) is the pair of
  a node and a parameter name; the scene is a store from handles to the state of
  the parameter. A call on a handle that the store no longer holds raises
  \<^verbatim>\<open>hou.ObjectWasDeleted\<close>. Two handles denote the same parameter exactly when they
  are equal, so a target node that is the source node shares its parameters with
  the source.
\<close>

datatype exn = OperationFailed | PermissionError | ObjectWasDeleted | InvalidInput | TypeError

datatype parmTemplateType =
    Int_type | Float_type | String_type | Toggle_type | Menu_type | Button_type
  | FolderSet_type | Folder_type | Separator_type | Label_type | Ramp_type | Data_type

datatype exprLanguage = Hscript | Python

text \<open>
  Python values: \<^verbatim>\<open>None\<close>, a \<^verbatim>\<open>str\<close>, or any other value (numbers, tuples,
  \<^verbatim>\<open>hou.Ramp\<close>), which the tool only passes on and which stays opaque here.
\<close>

datatype 'v pyval = PyNone | PyStr string | PyVal 'v

record 'v keyframe =
  frame :: rat
  kf_value :: 'v
  interpolation :: string

datatype 'v call =
    Eval | UnexpandedString | Keyframes
  | DeleteAllKeyframes | SetKeyframe "'v keyframe"
  | SetExpression string exprLanguage | Set "'v pyval"

text \<open>
  Modelled from the spec: the state of one parameter. \<open>raw\<close>,
  \<open>attached_expression\<close> and \<open>stored_keyframes\<close> are its content: the value last
  assigned (for a string parameter the unexpanded text),
  the attached expression with its language, and the animation samples in the
  order in which the host enumerates them. The remaining function fields are the
  behaviour of the host for this parameter: how it evaluates a content at the
  current time, whether it reports the content as time dependent or as the
  factory default, and \<open>refuses\<close>, the exception (if any) with which it answers a
  call.
\<close>

record 'v parm_state =
  parmType :: parmTemplateType
  description :: string
  locked :: bool
  raw :: "'v pyval"
  attached_expression :: "(string \<times> exprLanguage) option"
  stored_keyframes :: "'v keyframe list"
  evaluator :: "'v pyval \<Rightarrow> (string \<times> exprLanguage) option \<Rightarrow> 'v keyframe list \<Rightarrow> 'v pyval"
  timeDependent :: "'v pyval \<Rightarrow> (string \<times> exprLanguage) option \<Rightarrow> 'v keyframe list \<Rightarrow> bool"
  atDefault :: "'v pyval \<Rightarrow> (string \<times> exprLanguage) option \<Rightarrow> 'v keyframe list \<Rightarrow> bool"
  refuses :: "'v call \<Rightarrow> exn option"

type_synonym node = string
type_synonym Parm = "node \<times> string"
type_synonym 'v scene = "Parm \<Rightarrow> 'v parm_state option"

text \<open>
  Modelled from the spec: \<^verbatim>\<open>node.parm(name)\<close> is the handle, or \<^verbatim>\<open>None\<close> when
  the node has no such parameter. The target nodes of a batch are live:
  \<^verbatim>\<open>MultiNodePickerWidget.get_nodes\<close> drops deleted nodes before the loops start.
\<close>

definition node_parm :: "'v scene \<Rightarrow> node \<Rightarrow> string \<Rightarrow> Parm option" where
  "node_parm s n nm = (case s (n, nm) of None \<Rightarrow> None | Some _ \<Rightarrow> Some (n, nm))"

text \<open>Modelled from the spec: the reading calls. None of them changes the scene.\<close>

definition parm_name :: "'v scene \<Rightarrow> Parm \<Rightarrow> exn + string" where
  "parm_name s h = (case s h of None \<Rightarrow> Inl ObjectWasDeleted | Some _ \<Rightarrow> Inr (snd h))"

definition parm_isLocked :: "'v scene \<Rightarrow> Parm \<Rightarrow> exn + bool" where
  "parm_isLocked s h = (case s h of None \<Rightarrow> Inl ObjectWasDeleted | Some p \<Rightarrow> Inr (locked p))"

definition parm_isTimeDependent :: "'v scene \<Rightarrow> Parm \<Rightarrow> exn + bool" where
  "parm_isTimeDependent s h =
     (case s h of None \<Rightarrow> Inl ObjectWasDeleted
      | Some p \<Rightarrow> Inr (timeDependent p (raw p) (attached_expression p) (stored_keyframes p)))"

definition parm_isAtDefault :: "'v scene \<Rightarrow> Parm \<Rightarrow> exn + bool" where
  "parm_isAtDefault s h =
     (case s h of None \<Rightarrow> Inl ObjectWasDeleted
      | Some p \<Rightarrow> Inr (atDefault p (raw p) (attached_expression p) (stored_keyframes p)))"

definition parm_eval :: "'v scene \<Rightarrow> Parm \<Rightarrow> exn + 'v pyval" where
  "parm_eval s h =
     (case s h of None \<Rightarrow> Inl ObjectWasDeleted
      | Some p \<Rightarrow> (case refuses p Eval of Some e \<Rightarrow> Inl e
          | None \<Rightarrow> Inr (evaluator p (raw p) (attached_expression p) (stored_keyframes p))))"

text \<open>\<^verbatim>\<open>unexpandedString()\<close> fails on a parameter whose content is not a string.\<close>

definition parm_unexpandedString :: "'v scene \<Rightarrow> Parm \<Rightarrow> exn + string" where
  "parm_unexpandedString s h =
     (case s h of None \<Rightarrow> Inl ObjectWasDeleted
      | Some p \<Rightarrow> (case refuses p UnexpandedString of Some e \<Rightarrow> Inl e
          | None \<Rightarrow> (case raw p of PyStr str \<Rightarrow> Inr str | _ \<Rightarrow> Inl OperationFailed)))"

text \<open>\<^verbatim>\<open>expression()\<close> and \<^verbatim>\<open>expressionLanguage()\<close> fail with
  \<^verbatim>\<open>hou.OperationFailed\<close> when no expression is attached.\<close>

definition parm_expression :: "'v scene \<Rightarrow> Parm \<Rightarrow> exn + string" where
  "parm_expression s h =
     (case s h of None \<Rightarrow> Inl ObjectWasDeleted
      | Some p \<Rightarrow> (case attached_expression p of None \<Rightarrow> Inl OperationFailed | Some (e, l) \<Rightarrow> Inr e))"

definition parm_expressionLanguage :: "'v scene \<Rightarrow> Parm \<Rightarrow> exn + exprLanguage" where
  "parm_expressionLanguage s h =
     (case s h of None \<Rightarrow> Inl ObjectWasDeleted
      | Some p \<Rightarrow> (case attached_expression p of None \<Rightarrow> Inl OperationFailed | Some (e, l) \<Rightarrow> Inr l))"

definition parm_keyframes :: "'v scene \<Rightarrow> Parm \<Rightarrow> exn + 'v keyframe list" where
  "parm_keyframes s h =
     (case s h of None \<Rightarrow> Inl ObjectWasDeleted
      | Some p \<Rightarrow> (case refuses p Keyframes of Some e \<Rightarrow> Inl e
          | None \<Rightarrow> Inr (stored_keyframes p)))"

text \<open>
  Modelled from the spec: the writing calls. A refused call raises and leaves the scene as it was; an
  accepted call replaces the part of the content it is about.
  \<^verbatim>\<open>setKeyframe\<close> puts the sample at its own time: it replaces a sample stored
  at the same time and otherwise goes before the first later one.
\<close>

fun insert_keyframe :: "'v keyframe \<Rightarrow> 'v keyframe list \<Rightarrow> 'v keyframe list" where
  "insert_keyframe k [] = [k]"
| "insert_keyframe k (x # xs) =
     (if frame k < frame x then k # x # xs
      else if frame k = frame x then k # xs
      else x # insert_keyframe k xs)"

definition parm_set :: "'v scene \<Rightarrow> Parm \<Rightarrow> 'v pyval \<Rightarrow> exn + 'v scene" where
  "parm_set s h v =
     (case s h of None \<Rightarrow> Inl ObjectWasDeleted
      | Some p \<Rightarrow> (case refuses p (Set v) of Some e \<Rightarrow> Inl e
          | None \<Rightarrow> Inr (s(h \<mapsto> p\<lparr>raw := v\<rparr>))))"

definition parm_setExpression :: "'v scene \<Rightarrow> Parm \<Rightarrow> string \<Rightarrow> exprLanguage \<Rightarrow> exn + 'v scene" where
  "parm_setExpression s h e l =
     (case s h of None \<Rightarrow> Inl ObjectWasDeleted
      | Some p \<Rightarrow> (case refuses p (SetExpression e l) of Some x \<Rightarrow> Inl x
          | None \<Rightarrow> Inr (s(h \<mapsto> p\<lparr>attached_expression := Some (e, l)\<rparr>))))"

definition parm_deleteAllKeyframes :: "'v scene \<Rightarrow> Parm \<Rightarrow> exn + 'v scene" where
  "parm_deleteAllKeyframes s h =
     (case s h of None \<Rightarrow> Inl ObjectWasDeleted
      | Some p \<Rightarrow> (case refuses p DeleteAllKeyframes of Some e \<Rightarrow> Inl e
          | None \<Rightarrow> Inr (s(h \<mapsto> p\<lparr>stored_keyframes := []\<rparr>))))"

definition parm_setKeyframe :: "'v scene \<Rightarrow> Parm \<Rightarrow> 'v keyframe \<Rightarrow> exn + 'v scene" where
  "parm_setKeyframe s h k =
     (case s h of None \<Rightarrow> Inl ObjectWasDeleted
      | Some p \<Rightarrow> (case refuses p (SetKeyframe k) of Some e \<Rightarrow> Inl e
          | None \<Rightarrow> Inr (s(h \<mapsto> p\<lparr>stored_keyframes := insert_keyframe k (stored_keyframes p)\<rparr>))))"

section \<open>Parameter snapshot: class \<^verbatim>\<open>ParameterItem\<close>\<close>

text \<open>
  The fields of \<^verbatim>\<open>ParameterItem\<close>. \<open>parm\<close> is the handle of the source parameter,
  kept in the snapshot; \<open>parm_template\<close> keeps the type of the template, which is
  all that \<^verbatim>\<open>_transfer_parameter\<close> reads from it; \<open>item_value\<close> is the field
  \<^verbatim>\<open>value\<close>.
\<close>

record 'v ParameterItem =
  parm :: Parm
  name :: string
  label :: string
  parm_template :: parmTemplateType
  is_at_default :: bool
  item_value :: "'v pyval"
  value_display :: string
  has_keyframes :: bool
  has_expression :: bool

text \<open>
  \<^verbatim>\<open>_get_value\<close>: \<^verbatim>\<open>eval()\<close>; if that raises, \<^verbatim>\<open>unexpandedString()\<close>; if
  that raises too, \<^verbatim>\<open>None\<close>. Both handlers are bare \<^verbatim>\<open>except:\<close> clauses.
\<close>

definition get_value :: "'v scene \<Rightarrow> Parm \<Rightarrow> 'v pyval" where
  "get_value s h =
     (case parm_eval s h of
        Inr v \<Rightarrow> v
      | Inl _ \<Rightarrow> (case parm_unexpandedString s h of
           Inr str \<Rightarrow> PyStr str
         | Inl _ \<Rightarrow> PyNone))"

text \<open>
  \<^verbatim>\<open>_get_display_value\<close>: a type-directed rendering (menu label, On/Off,
  truncation to 50 characters, six significant digits of a float) inside a
  \<^verbatim>\<open>try\<close> whose bare \<^verbatim>\<open>except:\<close> returns \<^verbatim>\<open>str(self.value)\<close>. The
  rendering depends on Python's float formatting and is taken as the parameter
  \<open>render\<close>, Python's \<^verbatim>\<open>str\<close> as the parameter \<open>str\<close>; the handler around them
  is as in the source.
\<close>

definition get_display_value ::
  "('v scene \<Rightarrow> Parm \<Rightarrow> exn + string) \<Rightarrow> ('v pyval \<Rightarrow> string) \<Rightarrow> 'v scene \<Rightarrow> Parm \<Rightarrow> 'v pyval \<Rightarrow> string" where
  "get_display_value render str s h v =
     (case render s h of Inr d \<Rightarrow> d | Inl _ \<Rightarrow> str v)"

text \<open>
  \<^verbatim>\<open>ParameterItem.__init__\<close>. The calls before the probe of the expression are
  not guarded, and the probe catches \<^verbatim>\<open>hou.OperationFailed\<close> only: every other
  exception leaves the constructor.
\<close>

definition ParameterItem_init ::
  "('v scene \<Rightarrow> Parm \<Rightarrow> exn + string) \<Rightarrow> ('v pyval \<Rightarrow> string) \<Rightarrow> 'v scene \<Rightarrow> Parm \<Rightarrow> exn + 'v ParameterItem" where
  "ParameterItem_init render str s h =
     (case parm_name s h of Inl e \<Rightarrow> Inl e | Inr nm \<Rightarrow>
      (case s h of None \<Rightarrow> Inl ObjectWasDeleted | Some p \<Rightarrow>
      (case parm_isAtDefault s h of Inl e \<Rightarrow> Inl e | Inr dflt \<Rightarrow>
       (let v = get_value s h;
            d = get_display_value render str s h v
        in (case parm_isTimeDependent s h of Inl e \<Rightarrow> Inl e | Inr hk \<Rightarrow>
          (let item = \<lparr>parm = h, name = nm, label = description p,
                       parm_template = parmType p, is_at_default = dflt,
                       item_value = v, value_display = d,
                       has_keyframes = hk, has_expression = False\<rparr>
           in if \<not> hk then
                (case parm_expression s h of
                   Inr _ \<Rightarrow> Inr (item\<lparr>has_expression := True\<rparr>)
                 | Inl OperationFailed \<Rightarrow> Inr item
                 | Inl e \<Rightarrow> Inl e)
              else Inr item))))))"

section \<open>Transfer resolver: \<^verbatim>\<open>_transfer_parameter\<close> and the loop of \<^verbatim>\<open>_do_transfer\<close>\<close>

text \<open>The three strings \<^verbatim>\<open>"success"\<close>, \<^verbatim>\<open>"skipped"\<close>, \<^verbatim>\<open>"failed"\<close> that
  \<^verbatim>\<open>_transfer_parameter\<close> returns.\<close>

datatype TransferOutcome = Success | Skipped | Failed

text \<open>
  \<^verbatim>\<open>skip_locked and (target_parm.isLocked() or source_parm.isLocked())\<close>, with
  Python's evaluation from left to right: the source is asked only when
  \<^verbatim>\<open>skip_locked\<close> holds and the target is not locked.
\<close>

definition lock_test :: "bool \<Rightarrow> Parm \<Rightarrow> Parm \<Rightarrow> 'v scene \<Rightarrow> exn + bool" where
  "lock_test skip_locked target_parm source_parm s =
     (if \<not> skip_locked then Inr False
      else (case parm_isLocked s target_parm of
              Inl e \<Rightarrow> Inl e
            | Inr True \<Rightarrow> Inr True
            | Inr False \<Rightarrow> parm_isLocked s source_parm))"

text \<open>
  \<^verbatim>\<open>for keyframe in ...: target_parm.setKeyframe(keyframe)\<close>. An exception stops the
  loop; the keyframes set before it stay on the target.
\<close>

fun setKeyframe_loop :: "Parm \<Rightarrow> 'v keyframe list \<Rightarrow> 'v scene \<Rightarrow> exn option \<times> 'v scene" where
  "setKeyframe_loop target_parm [] s = (None, s)"
| "setKeyframe_loop target_parm (keyframe # rest) s =
     (case parm_setKeyframe s target_parm keyframe of
        Inl e \<Rightarrow> (Some e, s)
      | Inr s' \<Rightarrow> setKeyframe_loop target_parm rest s')"

text \<open>
  The keyframe branch: \<^verbatim>\<open>deleteAllKeyframes()\<close> on the target, then
  \<^verbatim>\<open>source_parm.keyframes()\<close> is read (once, after the deletion), then the loop.
\<close>

definition copy_keyframes_step ::
  "Parm \<Rightarrow> Parm \<Rightarrow> 'v scene \<Rightarrow> (exn + TransferOutcome) \<times> 'v scene" where
  "copy_keyframes_step source_parm target_parm s =
     (case parm_deleteAllKeyframes s target_parm of
        Inl e \<Rightarrow> (Inl e, s)
      | Inr s1 \<Rightarrow>
         (case parm_keyframes s1 source_parm of
            Inl e \<Rightarrow> (Inl e, s1)
          | Inr ks \<Rightarrow>
             (case setKeyframe_loop target_parm ks s1 of
                (Some e, s2) \<Rightarrow> (Inl e, s2)
              | (None, s2) \<Rightarrow> (Inr Success, s2))))"

text \<open>
  The expression branch, the inner \<^verbatim>\<open>try\<close>: \<open>Some\<close> of the new scene when the
  three calls went through, \<open>None\<close> when one of them raised and the bare
  \<^verbatim>\<open>except: pass\<close> swallowed it.
\<close>

definition copy_expression_step :: "Parm \<Rightarrow> Parm \<Rightarrow> 'v scene \<Rightarrow> 'v scene option" where
  "copy_expression_step source_parm target_parm s =
     (case parm_expression s source_parm of
        Inl _ \<Rightarrow> None
      | Inr expr \<Rightarrow>
         (case parm_expressionLanguage s source_parm of
            Inl _ \<Rightarrow> None
          | Inr lang \<Rightarrow>
             (case parm_setExpression s target_parm expr lang of
                Inl _ \<Rightarrow> None
              | Inr s' \<Rightarrow> Some s')))"

text \<open>The plain copy of the value, by the type of the snapshot's template.\<close>

definition copy_value_step ::
  "'v ParameterItem \<Rightarrow> Parm \<Rightarrow> Parm \<Rightarrow> 'v scene \<Rightarrow> (exn + TransferOutcome) \<times> 'v scene" where
  "copy_value_step parm_item source_parm target_parm s =
     (let parm_type = parm_template parm_item in
      if parm_type = String_type then
        (case parm_unexpandedString s source_parm of
           Inl e \<Rightarrow> (Inl e, s)
         | Inr str \<Rightarrow>
            (case parm_set s target_parm (PyStr str) of
               Inl e \<Rightarrow> (Inl e, s)
             | Inr s' \<Rightarrow> (Inr Success, s')))
      else if parm_type = Ramp_type then
        (case parm_eval s source_parm of
           Inl e \<Rightarrow> (Inl e, s)
         | Inr v \<Rightarrow>
            (case parm_set s target_parm v of
               Inl e \<Rightarrow> (Inl e, s)
             | Inr s' \<Rightarrow> (Inr Success, s')))
      else
        (case parm_eval s source_parm of
           Inl e \<Rightarrow> (Inl e, s)
         | Inr v \<Rightarrow>
            (case parm_set s target_parm v of
               Inl e \<Rightarrow> (Inl e, s)
             | Inr s' \<Rightarrow> (Inr Success, s'))))"

text \<open>The body of the outer \<^verbatim>\<open>try\<close>.\<close>

definition try_body ::
  "'v ParameterItem \<Rightarrow> Parm \<Rightarrow> Parm \<Rightarrow> bool \<Rightarrow> bool \<Rightarrow> 'v scene \<Rightarrow> (exn + TransferOutcome) \<times> 'v scene" where
  "try_body parm_item source_parm target_parm copy_expressions copy_keyframes s =
     (if copy_keyframes \<and> has_keyframes parm_item then
        copy_keyframes_step source_parm target_parm s
      else
        (case (if copy_expressions \<and> has_expression parm_item
               then copy_expression_step source_parm target_parm s else None) of
           Some s' \<Rightarrow> (Inr Success, s')
         | None \<Rightarrow> copy_value_step parm_item source_parm target_parm s))"

text \<open>\<^verbatim>\<open>except Exception as e: print(...); return "failed"\<close>. Every exception of
  the model is an \<^verbatim>\<open>Exception\<close>; the line printed to the console is left out.\<close>

definition except_failed :: "(exn + TransferOutcome) \<times> 'v scene \<Rightarrow> (exn + TransferOutcome) \<times> 'v scene" where
  "except_failed r = (case r of (Inl e, s') \<Rightarrow> (Inr Failed, s') | (Inr out, s') \<Rightarrow> (Inr out, s'))"

text \<open>
  \<^verbatim>\<open>_transfer_parameter\<close>. The result is the returned outcome, or the exception
  that leaves the function, together with the scene as the call leaves it. The
  lookup of the target parameter and the lock test stand before the \<^verbatim>\<open>try\<close>.
\<close>

definition transfer_parameter ::
  "'v ParameterItem \<Rightarrow> node \<Rightarrow> bool \<Rightarrow> bool \<Rightarrow> bool \<Rightarrow> 'v scene \<Rightarrow> (exn + TransferOutcome) \<times> 'v scene" where
  "transfer_parameter parm_item target_node copy_expressions copy_keyframes skip_locked s =
     (let source_parm = parm parm_item in
      case node_parm s target_node (name parm_item) of
        None \<Rightarrow> (Inr Failed, s)
      | Some target_parm \<Rightarrow>
         (case lock_test skip_locked target_parm source_parm s of
            Inl e \<Rightarrow> (Inl e, s)
          | Inr True \<Rightarrow> (Inr Skipped, s)
          | Inr False \<Rightarrow>
             except_failed
               (try_body parm_item source_parm target_parm copy_expressions copy_keyframes s)))"

text \<open>
  The two nested loops of \<^verbatim>\<open>_do_transfer\<close> with their three counters
  (success, skipped, failed). Nothing in \<^verbatim>\<open>_do_transfer\<close> catches an exception
  of \<^verbatim>\<open>_transfer_parameter\<close>: it ends both loops. The undo group around the
  loops and the dialogs before and after them are left out.
\<close>

type_synonym counts = "nat \<times> nat \<times> nat"

definition count_result :: "TransferOutcome \<Rightarrow> counts \<Rightarrow> counts" where
  "count_result result c =
     (case c of (success_count, skip_count, fail_count) \<Rightarrow>
        if result = Success then (success_count + 1, skip_count, fail_count)
        else if result = Skipped then (success_count, skip_count + 1, fail_count)
        else (success_count, skip_count, fail_count + 1))"

fun transfer_checked ::
  "node \<Rightarrow> 'v ParameterItem list \<Rightarrow> bool \<Rightarrow> bool \<Rightarrow> bool \<Rightarrow> counts \<Rightarrow> 'v scene \<Rightarrow> (exn + counts) \<times> 'v scene" where
  "transfer_checked target_node [] ce ck sl c s = (Inr c, s)"
| "transfer_checked target_node (parm_item # rest) ce ck sl c s =
     (case transfer_parameter parm_item target_node ce ck sl s of
        (Inl e, s') \<Rightarrow> (Inl e, s')
      | (Inr result, s') \<Rightarrow> transfer_checked target_node rest ce ck sl (count_result result c) s')"

fun transfer_nodes ::
  "node list \<Rightarrow> 'v ParameterItem list \<Rightarrow> bool \<Rightarrow> bool \<Rightarrow> bool \<Rightarrow> counts \<Rightarrow> 'v scene \<Rightarrow> (exn + counts) \<times> 'v scene" where
  "transfer_nodes [] checked_parms ce ck sl c s = (Inr c, s)"
| "transfer_nodes (target_node # rest) checked_parms ce ck sl c s =
     (case transfer_checked target_node checked_parms ce ck sl c s of
        (Inl e, s') \<Rightarrow> (Inl e, s')
      | (Inr c', s') \<Rightarrow> transfer_nodes rest checked_parms ce ck sl c' s')"

definition do_transfer ::
  "node list \<Rightarrow> 'v ParameterItem list \<Rightarrow> bool \<Rightarrow> bool \<Rightarrow> bool \<Rightarrow> 'v scene \<Rightarrow> (exn + counts) \<times> 'v scene" where
  "do_transfer target_nodes checked_parms copy_expressions copy_keyframes skip_locked s =
     transfer_nodes target_nodes checked_parms copy_expressions copy_keyframes skip_locked (0, 0, 0) s"

section \<open>Counting the processed pairs\<close>

definition processed :: "counts \<Rightarrow> nat" where
  "processed c = (case c of (success_count, skip_count, fail_count) \<Rightarrow>
                    success_count + skip_count + fail_count)"

section \<open>Example scenes\<close>

text \<open>
  A cooperative host for one parameter: it evaluates a content to the assigned
  value, reports a content with animation samples as time dependent, and accepts
  every call. Values are rationals here.
\<close>

definition host :: "parmTemplateType \<Rightarrow> rat pyval \<Rightarrow> rat parm_state" where
  "host ty v =
     \<lparr>parmType = ty, description = ''Parameter'', locked = False, raw = v,
      attached_expression = None, stored_keyframes = [],
      evaluator = (\<lambda>r e ks. r),
      timeDependent = (\<lambda>r e ks. ks \<noteq> []),
      atDefault = (\<lambda>r e ks. False),
      refuses = (\<lambda>c. None)\<rparr>"

definition key :: "rat \<Rightarrow> rat \<Rightarrow> rat keyframe" where
  "key t v = \<lparr>frame = t, kf_value = v, interpolation = ''bezier()''\<rparr>"

text \<open>A snapshot as far as the transfer reads it: handle, name, type and the
  two flags.\<close>

definition item :: "node \<Rightarrow> string \<Rightarrow> parmTemplateType \<Rightarrow> bool \<Rightarrow> bool \<Rightarrow> rat ParameterItem" where
  "item n nm ty hk he =
     \<lparr>parm = (n, nm), name = nm, label = ''Parameter'', parm_template = ty,
      is_at_default = False, item_value = PyNone, value_display = ''None'',
      has_keyframes = hk, has_expression = he\<rparr>"

text \<open>Source \<^verbatim>\<open>tx\<close> is 4.5, target \<^verbatim>\<open>tx\<close> is 0; a third node has \<^verbatim>\<open>tx\<close> locked.\<close>

definition tx_source :: "rat parm_state" where
  "tx_source = host Float_type (PyVal (9 / 2))"

definition tx_target :: "rat parm_state" where
  "tx_target = host Float_type (PyVal 0)"

definition tx_locked :: "rat parm_state" where
  "tx_locked = (host Float_type (PyVal 0))\<lparr>locked := True\<rparr>"

definition tx_item :: "rat ParameterItem" where
  "tx_item = item ''/obj/a'' ''tx'' Float_type False False"

definition scene_tx :: "rat scene" where
  "scene_tx =
     [(''/obj/a'', ''tx'') \<mapsto> tx_source,
      (''/obj/b'', ''tx'') \<mapsto> tx_target,
      (''/obj/c'', ''tx'') \<mapsto> tx_locked]"

text \<open>Source \<^verbatim>\<open>color\<close> holds a path with a variable that the host expands;
  source \<^verbatim>\<open>file\<close> cannot be evaluated.\<close>

definition color_source :: "rat parm_state" where
  "color_source =
     (host String_type (PyStr ''$HIP/tex.png''))
       \<lparr>evaluator := (\<lambda>r e ks. PyStr ''/home/user/tex.png'')\<rparr>"

definition color_target :: "rat parm_state" where
  "color_target = host String_type (PyStr [])"

definition file_source :: "rat parm_state" where
  "file_source =
     (host String_type (PyStr ''$JOB/geo.bgeo''))
       \<lparr>refuses := (\<lambda>c. if c = Eval then Some OperationFailed else None)\<rparr>"

definition color_item :: "rat ParameterItem" where
  "color_item = item ''/obj/a'' ''color'' String_type False False"

definition scene_color :: "rat scene" where
  "scene_color =
     [(''/obj/a'', ''color'') \<mapsto> color_source,
      (''/obj/b'', ''color'') \<mapsto> color_target,
      (''/obj/a'', ''file'') \<mapsto> file_source]"

text \<open>Source \<^verbatim>\<open>scale\<close> is animated at frames 1, 12 and 24; the target has one
  keyframe at frame 1; a third node is locked and refuses the deletion of its
  keyframes.\<close>

definition scale_source :: "rat parm_state" where
  "scale_source =
     (host Float_type (PyVal 1))\<lparr>stored_keyframes := [key 1 1, key 12 2, key 24 3]\<rparr>"

definition scale_target :: "rat parm_state" where
  "scale_target = (host Float_type (PyVal 7))\<lparr>stored_keyframes := [key 1 7]\<rparr>"

definition scale_refusing :: "rat parm_state" where
  "scale_refusing =
     (host Float_type (PyVal 7))
       \<lparr>locked := True,
        refuses := (\<lambda>c. if c = DeleteAllKeyframes then Some PermissionError else None)\<rparr>"

definition scale_item :: "rat ParameterItem" where
  "scale_item = item ''/obj/a'' ''scale'' Float_type True False"

definition scene_scale :: "rat scene" where
  "scene_scale =
     [(''/obj/a'', ''scale'') \<mapsto> scale_source,
      (''/obj/b'', ''scale'') \<mapsto> scale_target,
      (''/obj/c'', ''scale'') \<mapsto> scale_refusing]"

text \<open>Source \<^verbatim>\<open>ty\<close> carries an expression; the target refuses every expression.\<close>

definition ty_source :: "rat parm_state" where
  "ty_source =
     (host Float_type (PyVal 0))
       \<lparr>attached_expression := Some (''ch(tx) * 2'', Hscript),
        evaluator := (\<lambda>r e ks. PyVal 9)\<rparr>"

definition ty_target :: "rat parm_state" where
  "ty_target =
     (host Float_type (PyVal 0))
       \<lparr>refuses := (\<lambda>c. case c of SetExpression e l \<Rightarrow> Some OperationFailed | _ \<Rightarrow> None)\<rparr>"

definition ty_item :: "rat ParameterItem" where
  "ty_item = item ''/obj/a'' ''ty'' Float_type False True"

text \<open>The snapshot that the constructor takes of source \<^verbatim>\<open>ty\<close>.\<close>

definition ty_snapshot :: "rat ParameterItem" where
  "ty_snapshot =
     \<lparr>parm = (''/obj/a'', ''ty''), name = ''ty'', label = ''Parameter'',
      parm_template = Float_type, is_at_default = False, item_value = PyVal 9,
      value_display = ''9'', has_keyframes = False, has_expression = True\<rparr>"

definition scene_ty :: "rat scene" where
  "scene_ty =
     [(''/obj/a'', ''ty'') \<mapsto> ty_source,
      (''/obj/b'', ''ty'') \<mapsto> ty_target]"

text \<open>The source node has lost its parameter \<^verbatim>\<open>spare\<close> since the snapshot was
  taken; the target node has both parameters.\<close>

definition spare_item :: "rat ParameterItem" where
  "spare_item = item ''/obj/a'' ''spare'' Float_type False False"

definition scene_stale :: "rat scene" where
  "scene_stale =
     [(''/obj/a'', ''tx'') \<mapsto> tx_source,
      (''/obj/b'', ''spare'') \<mapsto> tx_target,
      (''/obj/b'', ''tx'') \<mapsto> tx_target]"

text \<open>The host evaluates \<^verbatim>\<open>rx\<close> to one more than the value stored in it.\<close>

definition rx_source :: "rat parm_state" where
  "rx_source =
     (host Float_type (PyVal 0))
       \<lparr>evaluator := (\<lambda>r e ks. case r of PyVal x \<Rightarrow> PyVal (x + 1) | _ \<Rightarrow> r)\<rparr>"

definition rx_item :: "rat ParameterItem" where
  "rx_item = item ''/obj/a'' ''rx'' Float_type False False"


text \<open>Source \<^verbatim>\<open>tz\<close> follows the frame number through an expression. It stores no
  keyframe; the host reports it as time dependent.\<close>

definition tz_source :: "rat parm_state" where
  "tz_source =
     (host Float_type (PyVal 0))
       \<lparr>attached_expression := Some (''$F'', Hscript),
        evaluator := (\<lambda>r e ks. PyVal 24),
        timeDependent := (\<lambda>r e ks. ks \<noteq> [] \<or> e = Some (''$F'', Hscript))\<rparr>"

text \<open>The snapshot that the constructor takes of source \<^verbatim>\<open>tz\<close>.\<close>

definition tz_snapshot :: "rat ParameterItem" where
  "tz_snapshot =
     \<lparr>parm = (''/obj/a'', ''tz''), name = ''tz'', label = ''Parameter'',
      parm_template = Float_type, is_at_default = False, item_value = PyVal 24,
      value_display = ''24'', has_keyframes = True, has_expression = False\<rparr>"


section \<open>Auxiliary facts\<close>

lemmas api_defs = node_parm_def parm_name_def parm_isLocked_def parm_isTimeDependent_def
  parm_isAtDefault_def parm_eval_def parm_unexpandedString_def parm_expression_def
  parm_expressionLanguage_def parm_keyframes_def parm_set_def parm_setExpression_def
  parm_deleteAllKeyframes_def parm_setKeyframe_def

lemmas transfer_defs = transfer_parameter_def lock_test_def try_body_def except_failed_def
  copy_keyframes_step_def copy_expression_step_def copy_value_step_def Let_def

lemmas example_defs = host_def key_def item_def tx_source_def tx_target_def tx_locked_def
  color_source_def color_target_def file_source_def scale_source_def scale_target_def
  scale_refusing_def ty_source_def ty_target_def tx_item_def color_item_def scale_item_def
  ty_item_def ty_snapshot_def spare_item_def rx_source_def rx_item_def tz_source_def
  tz_snapshot_def

subsection \<open>What a call can change\<close>

text \<open>Each accepted write replaces one part of the content of the parameter it
  is called on, and nothing else in the scene.\<close>

lemma parm_set_shape:
  "parm_set s t v = Inr s' \<Longrightarrow> \<exists>p. s t = Some p \<and> refuses p (Set v) = None \<and> s' = s(t \<mapsto> p\<lparr>raw := v\<rparr>)"
  by (auto simp add: parm_set_def split: option.splits)

lemma parm_setExpression_shape:
  "parm_setExpression s t e l = Inr s' \<Longrightarrow>
     \<exists>p. s t = Some p \<and> refuses p (SetExpression e l) = None \<and> s' = s(t \<mapsto> p\<lparr>attached_expression := Some (e, l)\<rparr>)"
  by (auto simp add: parm_setExpression_def split: option.splits)

lemma parm_deleteAllKeyframes_shape:
  "parm_deleteAllKeyframes s t = Inr s' \<Longrightarrow>
     \<exists>p. s t = Some p \<and> refuses p DeleteAllKeyframes = None \<and> s' = s(t \<mapsto> p\<lparr>stored_keyframes := []\<rparr>)"
  by (auto simp add: parm_deleteAllKeyframes_def split: option.splits)

text \<open>The loop over the keyframes changes the stored keyframes of the target
  only, whether it runs to its end or stops at an exception.\<close>

lemma setKeyframe_loop_shape:
  "setKeyframe_loop t ks s = (r, s') \<Longrightarrow> s t = Some p \<Longrightarrow>
     \<exists>K. s' = s(t \<mapsto> p\<lparr>stored_keyframes := K\<rparr>)"
proof (induction ks arbitrary: s p)
  case Nil
  then have "s' = s(t \<mapsto> p\<lparr>stored_keyframes := stored_keyframes p\<rparr>)"
    by (simp add: fun_upd_idem)
  then show ?case by blast
next
  case (Cons k ks)
  show ?case
  proof (cases "refuses p (SetKeyframe k)")
    case (Some e)
    with Cons.prems have "s' = s" by (simp add: parm_setKeyframe_def)
    then have "s' = s(t \<mapsto> p\<lparr>stored_keyframes := stored_keyframes p\<rparr>)"
      using Cons.prems(2) by (simp add: fun_upd_idem)
    then show ?thesis by blast
  next
    case None
    let ?p1 = "p\<lparr>stored_keyframes := insert_keyframe k (stored_keyframes p)\<rparr>"
    let ?s1 = "s(t \<mapsto> ?p1)"
    from None Cons.prems have loop: "setKeyframe_loop t ks ?s1 = (r, s')"
      by (simp add: parm_setKeyframe_def)
    have "?s1 t = Some ?p1" by simp
    from Cons.IH [OF loop this] obtain K where "s' = ?s1(t \<mapsto> ?p1\<lparr>stored_keyframes := K\<rparr>)"
      by blast
    then have "s' = s(t \<mapsto> p\<lparr>stored_keyframes := K\<rparr>)" by simp
    then show ?thesis by blast
  qed
qed

lemma copy_keyframes_step_shape:
  assumes "copy_keyframes_step src t s = (r, s')" and "s t = Some p"
  shows "\<exists>K. s' = s(t \<mapsto> p\<lparr>stored_keyframes := K\<rparr>)"
proof (cases "parm_deleteAllKeyframes s t")
  case (Inl e)
  with assms have "s' = s" by (simp add: copy_keyframes_step_def)
  then have "s' = s(t \<mapsto> p\<lparr>stored_keyframes := stored_keyframes p\<rparr>)"
    using assms(2) by (simp add: fun_upd_idem)
  then show ?thesis by blast
next
  case (Inr s1)
  with parm_deleteAllKeyframes_shape [OF Inr] assms(2)
  have s1: "s1 = s(t \<mapsto> p\<lparr>stored_keyframes := []\<rparr>)" by auto
  show ?thesis
  proof (cases "parm_keyframes s1 src")
    case (Inl e)
    with Inr assms have "s' = s1" by (simp add: copy_keyframes_step_def)
    with s1 show ?thesis by blast
  next
    case (Inr ks)
    obtain r2 s2 where loop: "setKeyframe_loop t ks s1 = (r2, s2)" by force
    with \<open>parm_deleteAllKeyframes s t = Inr s1\<close> Inr assms have "s' = s2"
      by (auto simp add: copy_keyframes_step_def split: option.splits)
    moreover have "s1 t = Some (p\<lparr>stored_keyframes := []\<rparr>)" using s1 by simp
    from setKeyframe_loop_shape [OF loop this]
    obtain K where "s2 = s1(t \<mapsto> p\<lparr>stored_keyframes := [], stored_keyframes := K\<rparr>)" by blast
    ultimately have "s' = s(t \<mapsto> p\<lparr>stored_keyframes := K\<rparr>)" using s1 by simp
    then show ?thesis by blast
  qed
qed

lemma copy_value_step_shape:
  assumes "copy_value_step parm_item src t s = (r, s')" and "s t = Some p"
  shows "\<exists>v. s' = s(t \<mapsto> p\<lparr>raw := v\<rparr>)"
proof -
  have "s' = s \<or> (\<exists>v. parm_set s t v = Inr s')"
    using assms(1)
    by (auto simp add: copy_value_step_def Let_def split: sum.splits if_splits)
  then show ?thesis
  proof
    assume "s' = s"
    then have "s' = s(t \<mapsto> p\<lparr>raw := raw p\<rparr>)" using assms(2) by (simp add: fun_upd_idem)
    then show ?thesis by blast
  next
    assume "\<exists>v. parm_set s t v = Inr s'"
    then obtain v where "parm_set s t v = Inr s'" by blast
    from parm_set_shape [OF this] assms(2) show ?thesis by auto
  qed
qed

text \<open>A call of \<^verbatim>\<open>_transfer_parameter\<close> leaves the scene as it was or replaces
  the content of the target parameter.\<close>

lemma transfer_parameter_shape:
  assumes "transfer_parameter parm_item target_node ce ck sl s = (r, s')"
  shows "s' = s \<or>
         (\<exists>p v e K. s (target_node, name parm_item) = Some p \<and>
            s' = s((target_node, name parm_item) \<mapsto>
                    p\<lparr>raw := v, attached_expression := e, stored_keyframes := K\<rparr>))"
proof (cases "s (target_node, name parm_item)")
  case None
  with assms show ?thesis by (simp add: transfer_parameter_def node_parm_def)
next
  case (Some p)
  let ?t = "(target_node, name parm_item)"
  let ?src = "parm parm_item"
  show ?thesis
  proof (cases "lock_test sl ?t ?src s = Inr False")
    case False
    with assms Some have "s' = s"
      by (auto simp add: transfer_parameter_def node_parm_def Let_def split: sum.splits bool.splits)
    then show ?thesis by simp
  next
    case True
    with assms Some have body: "except_failed (try_body parm_item ?src ?t ce ck s) = (r, s')"
      by (simp add: transfer_parameter_def node_parm_def Let_def)
    obtain r0 where tb: "try_body parm_item ?src ?t ce ck s = (r0, s')"
      using body by (auto simp add: except_failed_def split: prod.splits sum.splits)
    have "(\<exists>K. s' = s(?t \<mapsto> p\<lparr>stored_keyframes := K\<rparr>)) \<or>
          (\<exists>e. s' = s(?t \<mapsto> p\<lparr>attached_expression := e\<rparr>)) \<or>
          (\<exists>v. s' = s(?t \<mapsto> p\<lparr>raw := v\<rparr>))"
    proof (cases "ck \<and> has_keyframes parm_item")
      case True
      with tb have "copy_keyframes_step ?src ?t s = (r0, s')" by (simp add: try_body_def)
      from copy_keyframes_step_shape [OF this Some] show ?thesis by blast
    next
      case False
      show ?thesis
      proof (cases "if ce \<and> has_expression parm_item then copy_expression_step ?src ?t s else None")
        case None
        with False tb have "copy_value_step parm_item ?src ?t s = (r0, s')"
          by (auto simp add: try_body_def)
        from copy_value_step_shape [OF this Some] show ?thesis by blast
      next
        case (Some s1)
        with False tb have "s' = s1" by (auto simp add: try_body_def)
        moreover from Some have "copy_expression_step ?src ?t s = Some s1"
          by (simp split: if_splits)
        then obtain e l where "parm_setExpression s ?t e l = Inr s1"
          by (auto simp add: copy_expression_step_def split: sum.splits)
        from parm_setExpression_shape [OF this] \<open>s ?t = Some p\<close>
        have "s1 = s(?t \<mapsto> p\<lparr>attached_expression := Some (e, l)\<rparr>)" by auto
        ultimately show ?thesis by blast
      qed
    qed
    then show ?thesis
    proof (elim disjE exE)
      fix K assume "s' = s(?t \<mapsto> p\<lparr>stored_keyframes := K\<rparr>)"
      then have "s' = s(?t \<mapsto> p\<lparr>raw := raw p, attached_expression := attached_expression p, stored_keyframes := K\<rparr>)"
        by simp
      with Some show ?thesis by blast
    next
      fix e assume "s' = s(?t \<mapsto> p\<lparr>attached_expression := e\<rparr>)"
      then have "s' = s(?t \<mapsto> p\<lparr>raw := raw p, attached_expression := e, stored_keyframes := stored_keyframes p\<rparr>)"
        by simp
      with Some show ?thesis by blast
    next
      fix v assume "s' = s(?t \<mapsto> p\<lparr>raw := v\<rparr>)"
      then have "s' = s(?t \<mapsto> p\<lparr>raw := v, attached_expression := attached_expression p, stored_keyframes := stored_keyframes p\<rparr>)"
        by simp
      with Some show ?thesis by blast
    qed
  qed
qed

lemma transfer_parameter_frame:
  assumes "transfer_parameter parm_item target_node ce ck sl s = (r, s')"
    and "h \<noteq> (target_node, name parm_item)"
  shows "s' h = s h"
  using transfer_parameter_shape [OF assms(1)] assms(2) by auto

lemma transfer_parameter_live:
  assumes "transfer_parameter parm_item target_node ce ck sl s = (r, s')"
  shows "(s' h = None) = (s h = None)"
  using transfer_parameter_shape [OF assms(1)] by (cases "h = (target_node, name parm_item)") auto

subsection \<open>Setting keyframes in the order of their times\<close>

lemma insert_keyframe_last:
  "\<forall>x\<in>set K. frame x < frame k \<Longrightarrow> insert_keyframe k K = K @ [k]"
  by (induction K) auto

lemma setKeyframe_loop_ordered:
  "sorted_wrt (<) (map frame (K @ ks)) \<Longrightarrow> s t = Some p \<Longrightarrow> stored_keyframes p = K \<Longrightarrow>
   \<forall>k\<in>set ks. refuses p (SetKeyframe k) = None \<Longrightarrow>
   setKeyframe_loop t ks s = (None, s(t \<mapsto> p\<lparr>stored_keyframes := K @ ks\<rparr>))"
proof (induction ks arbitrary: K s p)
  case Nil
  then show ?case by (simp add: fun_upd_idem)
next
  case (Cons k ks)
  let ?p1 = "p\<lparr>stored_keyframes := K @ [k]\<rparr>"
  let ?s1 = "s(t \<mapsto> ?p1)"
  from Cons.prems(1) have "\<forall>x\<in>set K. frame x < frame k"
    by (auto simp add: sorted_wrt_append)
  then have ins: "insert_keyframe k K = K @ [k]" by (rule insert_keyframe_last)
  from Cons.prems have step: "parm_setKeyframe s t k = Inr ?s1"
    by (simp add: parm_setKeyframe_def ins)
  have "setKeyframe_loop t ks ?s1 = (None, ?s1(t \<mapsto> ?p1\<lparr>stored_keyframes := (K @ [k]) @ ks\<rparr>))"
  proof (rule Cons.IH)
    show "sorted_wrt (<) (map frame ((K @ [k]) @ ks))" using Cons.prems(1) by simp
    show "?s1 t = Some ?p1" by simp
    show "stored_keyframes ?p1 = K @ [k]" by simp
    show "\<forall>k\<in>set ks. refuses ?p1 (SetKeyframe k) = None" using Cons.prems(4) by simp
  qed
  then have "setKeyframe_loop t ks ?s1 = (None, s(t \<mapsto> p\<lparr>stored_keyframes := K @ k # ks\<rparr>))"
    by simp
  moreover have "setKeyframe_loop t (k # ks) s = setKeyframe_loop t ks ?s1"
    using step by simp
  ultimately show ?case by (simp only:)
qed

subsection \<open>Running a step again\<close>










subsection \<open>The batch over live source handles\<close>

lemma except_failed_returns: "\<exists>out s'. except_failed r = (Inr out, s')"
  by (cases r) (auto simp add: except_failed_def split: sum.splits)

lemma transfer_parameter_returns:
  assumes "s (parm parm_item) \<noteq> None"
  shows "\<exists>out s'. transfer_parameter parm_item target_node ce ck sl s = (Inr out, s')"
proof (cases "s (target_node, name parm_item)")
  case None
  then show ?thesis by (simp add: transfer_parameter_def node_parm_def)
next
  case (Some p)
  from assms obtain ps where ps: "s (parm parm_item) = Some ps" by blast
  from Some ps
  have "\<exists>b. lock_test sl (target_node, name parm_item) (parm parm_item) s = Inr b"
    by (auto simp add: lock_test_def parm_isLocked_def split: bool.splits)
  then obtain b
    where "lock_test sl (target_node, name parm_item) (parm parm_item) s = Inr b"
    by blast
  moreover obtain out s' where
    "except_failed (try_body parm_item (parm parm_item) (target_node, name parm_item) ce ck s)
       = (Inr out, s')"
    using except_failed_returns by blast
  ultimately show ?thesis
    using Some by (cases b) (simp_all add: transfer_parameter_def node_parm_def Let_def)
qed

lemma processed_count_result: "processed (count_result result c) = processed c + 1"
  by (cases c) (simp add: processed_def count_result_def)

lemma transfer_checked_live:
  "\<forall>it\<in>set items. s (parm it) \<noteq> None \<Longrightarrow>
   \<exists>c' s'. transfer_checked target_node items ce ck sl c s = (Inr c', s') \<and>
     processed c' = processed c + length items \<and>
     (\<forall>h. (s' h = None) = (s h = None))"
proof (induction items arbitrary: c s)
  case Nil
  then show ?case by simp
next
  case (Cons it items)
  from Cons.prems have "s (parm it) \<noteq> None" by simp
  then have "\<exists>out s1. transfer_parameter it target_node ce ck sl s = (Inr out, s1)"
    by (rule transfer_parameter_returns)
  then obtain out s1
    where run: "transfer_parameter it target_node ce ck sl s = (Inr out, s1)" by blast
  have live: "(s1 h = None) = (s h = None)" for h
    using run by (rule transfer_parameter_live)
  have "\<forall>x\<in>set items. s1 (parm x) \<noteq> None"
  proof
    fix x assume "x \<in> set items"
    with Cons.prems have "s (parm x) \<noteq> None" by simp
    with live [of "parm x"] show "s1 (parm x) \<noteq> None" by blast
  qed
  from Cons.IH [OF this, of "count_result out c"] obtain c' s'
    where rest: "transfer_checked target_node items ce ck sl (count_result out c) s1 = (Inr c', s')"
      and cnt: "processed c' = processed (count_result out c) + length items"
      and live': "\<forall>h. (s' h = None) = (s1 h = None)"
    by blast
  have "transfer_checked target_node (it # items) ce ck sl c s = (Inr c', s')"
    using run rest by simp
  moreover have "processed c' = processed c + length (it # items)"
    using cnt by (simp add: processed_count_result)
  moreover have "\<forall>h. (s' h = None) = (s h = None)"
    using live live' by blast
  ultimately show ?case by blast
qed

lemma transfer_nodes_live:
  "\<forall>it\<in>set items. s (parm it) \<noteq> None \<Longrightarrow>
   \<exists>c' s'. transfer_nodes nodes items ce ck sl c s = (Inr c', s') \<and>
     processed c' = processed c + length nodes * length items"
proof (induction nodes arbitrary: c s)
  case Nil
  then show ?case by simp
next
  case (Cons n nodes)
  from transfer_checked_live [OF Cons.prems, of n ce ck sl c] obtain c1 s1
    where inner: "transfer_checked n items ce ck sl c s = (Inr c1, s1)"
      and cnt1: "processed c1 = processed c + length items"
      and live: "\<forall>h. (s1 h = None) = (s h = None)"
    by blast
  from live Cons.prems have "\<forall>x\<in>set items. s1 (parm x) \<noteq> None" by blast
  from Cons.IH [OF this, of c1] obtain c' s'
    where rest: "transfer_nodes nodes items ce ck sl c1 s1 = (Inr c', s')"
      and cnt: "processed c' = processed c1 + length nodes * length items"
    by blast
  have "transfer_nodes (n # nodes) items ce ck sl c s = (Inr c', s')"
    using inner rest by simp
  moreover have "processed c' = processed c + length (n # nodes) * length items"
    using cnt cnt1 by simp
  ultimately show ?case by blast
qed

text \<open>As long as the handle of every selected snapshot is live, the batch
  returns, and each of the pairs is counted once.\<close>

lemma do_transfer_live:
  assumes "\<forall>it\<in>set checked_parms. s (parm it) \<noteq> None"
  shows "\<exists>c' s'. do_transfer target_nodes checked_parms ce ck sl s = (Inr c', s') \<and>
           processed c' = length target_nodes * length checked_parms"
  using transfer_nodes_live [OF assms, of target_nodes ce ck sl "(0, 0, 0)"]
  by (simp add: do_transfer_def processed_def)

section \<open>Properties of the snapshot\<close>

text \<open>
  C6. For a live handle, the constructor of \<^verbatim>\<open>ParameterItem\<close> returns a snapshot
  and raises nothing, whatever the rendering of the display string does. The
  value of the snapshot is the evaluated value when the host evaluates the
  parameter; otherwise the unexpanded string when the host hands it out;
  otherwise \<^verbatim>\<open>None\<close>.
\<close>

theorem snapshot_never_raises:
  assumes "s h = Some p"
  shows "\<exists>d. ParameterItem_init render str s h = Inr d \<and>
           item_value d =
             (if refuses p Eval = None
              then evaluator p (raw p) (attached_expression p) (stored_keyframes p)
              else (case raw p of
                      PyStr t \<Rightarrow> if refuses p UnexpandedString = None then PyStr t else PyNone
                    | _ \<Rightarrow> PyNone))"
  using assms
  by (auto simp add: ParameterItem_init_def parm_name_def parm_isAtDefault_def
        parm_isTimeDependent_def parm_expression_def get_value_def parm_eval_def
        parm_unexpandedString_def Let_def split: option.splits pyval.splits)

theorem snapshot_never_raises_witness:
  "scene_color (''/obj/a'', ''file'') = Some file_source \<and>
   refuses file_source Eval = Some OperationFailed \<and>
   (\<exists>d. ParameterItem_init (\<lambda>s h. Inl TypeError) (\<lambda>v. ''value'') scene_color
          (''/obj/a'', ''file'') = Inr d \<and>
        item_value d = PyStr ''$JOB/geo.bgeo'')"
  using snapshot_never_raises
    [where s = scene_color and h = "(''/obj/a'', ''file'')" and p = file_source
       and render = "\<lambda>s h. Inl TypeError" and str = "\<lambda>v. ''value''"]
  by (simp add: scene_color_def example_defs)




section \<open>Properties of the transfer resolver\<close>

text \<open>
  C5. When the target node has no parameter of the descriptor's name, the outcome
  is Failed, whatever the options, and the scene is the one before the call: the
  lookup comes before the lock test and before every copy step.
\<close>

theorem missing_target_parameter_failed:
  assumes "s (target_node, name parm_item) = None"
  shows "transfer_parameter parm_item target_node copy_expressions copy_keyframes skip_locked s
           = (Inr Failed, s)"
  using assms by (simp add: transfer_parameter_def node_parm_def)

theorem missing_target_parameter_failed_witness:
  "scene_tx (''/obj/d'', name tx_item) = None \<and>
   transfer_parameter tx_item ''/obj/d'' True True True scene_tx = (Inr Failed, scene_tx)"
  using missing_target_parameter_failed
    [where s = scene_tx and target_node = "''/obj/d''" and parm_item = "tx_item"
       and copy_expressions = True and copy_keyframes = True and skip_locked = True]
  by (simp add: scene_tx_def example_defs)

text \<open>
  C4. With \<^verbatim>\<open>skip_locked\<close> set, when the target parameter exists and the target
  parameter or the source parameter is locked, the outcome is Skipped, whatever
  \<^verbatim>\<open>copy_expressions\<close> and \<^verbatim>\<open>copy_keyframes\<close> are, and the scene is the one
  before the call.
\<close>

theorem locked_is_skipped:
  assumes "skip_locked"
    and "s (target_node, name parm_item) = Some pt"
    and "locked pt \<or> (\<exists>ps. s (parm parm_item) = Some ps \<and> locked ps)"
  shows "transfer_parameter parm_item target_node copy_expressions copy_keyframes skip_locked s
           = (Inr Skipped, s)"
  using assms
  by (auto simp add: transfer_parameter_def node_parm_def lock_test_def parm_isLocked_def Let_def
        split: bool.splits)

theorem locked_is_skipped_witness:
  "scene_tx (''/obj/c'', name tx_item) = Some tx_locked \<and> locked tx_locked \<and>
   transfer_parameter tx_item ''/obj/c'' False False True scene_tx = (Inr Skipped, scene_tx)"
  using locked_is_skipped
    [where s = scene_tx and target_node = "''/obj/c''" and parm_item = "tx_item"
       and pt = tx_locked
       and skip_locked = True and copy_expressions = False and copy_keyframes = False]
  by (simp add: scene_tx_def example_defs)

text \<open>
  C1, as amended. With \<^verbatim>\<open>copy_keyframes\<close> set and a descriptor with
  \<^verbatim>\<open>has_keyframes\<close>, when the target parameter exists, is another parameter than
  the source, the lock test does not skip the pair, and the host accepts the
  deletion, the reading of the source's keyframes (which it enumerates in the
  order of their times, one per time) and every \<^verbatim>\<open>setKeyframe\<close>: the outcome is
  Success, and the target is left with exactly the source's keyframes, in the
  source's order, none of its own.
\<close>

theorem keyframes_copied:
  assumes "copy_keyframes" and "has_keyframes parm_item"
    and tgt: "s (target_node, name parm_item) = Some pt"
    and src: "s (parm parm_item) = Some ps"
    and distinct: "parm parm_item \<noteq> (target_node, name parm_item)"
    and nolock: "lock_test skip_locked (target_node, name parm_item) (parm parm_item) s = Inr False"
    and ordered: "sorted_wrt (<) (map frame (stored_keyframes ps))"
    and acc_del: "refuses pt DeleteAllKeyframes = None"
    and acc_read: "refuses ps Keyframes = None"
    and acc_set: "\<forall>k\<in>set (stored_keyframes ps). refuses pt (SetKeyframe k) = None"
  shows "transfer_parameter parm_item target_node copy_expressions copy_keyframes skip_locked s =
           (Inr Success,
            s((target_node, name parm_item) \<mapsto> pt\<lparr>stored_keyframes := stored_keyframes ps\<rparr>))"
proof -
  let ?t = "(target_node, name parm_item)"
  let ?src = "parm parm_item"
  let ?p0 = "pt\<lparr>stored_keyframes := []\<rparr>"
  let ?s1 = "s(?t \<mapsto> ?p0)"
  have del: "parm_deleteAllKeyframes s ?t = Inr ?s1"
    using tgt acc_del by (simp add: parm_deleteAllKeyframes_def)
  have rd: "parm_keyframes ?s1 ?src = Inr (stored_keyframes ps)"
    using src distinct acc_read by (simp add: parm_keyframes_def)
  have "setKeyframe_loop ?t (stored_keyframes ps) ?s1 =
          (None, ?s1(?t \<mapsto> ?p0\<lparr>stored_keyframes := [] @ stored_keyframes ps\<rparr>))"
  proof (rule setKeyframe_loop_ordered)
    show "sorted_wrt (<) (map frame ([] @ stored_keyframes ps))" using ordered by simp
    show "?s1 ?t = Some ?p0" by simp
    show "stored_keyframes ?p0 = []" by simp
    show "\<forall>k\<in>set (stored_keyframes ps). refuses ?p0 (SetKeyframe k) = None"
      using acc_set by simp
  qed
  then have loop: "setKeyframe_loop ?t (stored_keyframes ps) ?s1 =
          (None, s(?t \<mapsto> pt\<lparr>stored_keyframes := stored_keyframes ps\<rparr>))"
    by simp
  have "copy_keyframes_step ?src ?t s =
          (Inr Success, s(?t \<mapsto> pt\<lparr>stored_keyframes := stored_keyframes ps\<rparr>))"
    by (simp add: copy_keyframes_step_def del rd loop)
  then show ?thesis
    using assms(1,2) tgt nolock
    by (simp add: transfer_parameter_def node_parm_def Let_def try_body_def except_failed_def)
qed

theorem keyframes_copied_witness:
  "has_keyframes scale_item \<and>
   scene_scale (''/obj/b'', name scale_item) = Some scale_target \<and>
   scene_scale (parm scale_item) = Some scale_source \<and>
   parm scale_item \<noteq> (''/obj/b'', name scale_item) \<and>
   lock_test True (''/obj/b'', name scale_item) (parm scale_item) scene_scale = Inr False \<and>
   sorted_wrt (<) (map frame (stored_keyframes scale_source)) \<and>
   stored_keyframes scale_target = [key 1 7] \<and>
   transfer_parameter scale_item ''/obj/b'' True True True scene_scale =
     (Inr Success,
      scene_scale((''/obj/b'', ''scale'') \<mapsto>
        scale_target\<lparr>stored_keyframes := [key 1 1, key 12 2, key 24 3]\<rparr>))"
  using keyframes_copied
    [where s = scene_scale and target_node = "''/obj/b''" and parm_item = "scale_item"
       and pt = scale_target and ps = scale_source
       and skip_locked = True and copy_expressions = True and copy_keyframes = True]
  by (simp add: scene_scale_def example_defs lock_test_def parm_isLocked_def)

text \<open>
  C1 as it is stated fails in two ways. A target that refuses the deletion of its
  keyframes (here a locked one, with \<^verbatim>\<open>skip_locked\<close> off) gives Failed, not
  Success. And when the target node is the source node, the deletion empties the
  source before its keyframes are read: the outcome is Success and the parameter
  holds no keyframe at all.
\<close>

theorem keyframes_copy_counterexample:
  "has_keyframes scale_item \<and>
   scene_scale (''/obj/c'', name scale_item) = Some scale_refusing \<and>
   lock_test False (''/obj/c'', name scale_item) (parm scale_item) scene_scale = Inr False \<and>
   transfer_parameter scale_item ''/obj/c'' True True False scene_scale = (Inr Failed, scene_scale) \<and>
   scene_scale (''/obj/a'', name scale_item) = Some scale_source \<and>
   lock_test True (''/obj/a'', name scale_item) (parm scale_item) scene_scale = Inr False \<and>
   parm_keyframes scene_scale (parm scale_item) = Inr [key 1 1, key 12 2, key 24 3] \<and>
   fst (transfer_parameter scale_item ''/obj/a'' True True True scene_scale) = Inr Success \<and>
   parm_keyframes (snd (transfer_parameter scale_item ''/obj/a'' True True True scene_scale))
     (''/obj/a'', name scale_item) = Inr []"
  by (simp add: scene_scale_def example_defs api_defs transfer_defs)

text \<open>
  C2. With \<^verbatim>\<open>copy_expressions\<close> set, a descriptor with \<^verbatim>\<open>has_expression\<close> and
  the keyframe branch not taken, when the expression step fails (one of its three
  calls raises, the setting of the expression on the target among them), the pair
  is not reported as Failed for that: the result is the result of the plain copy
  of the value, run on the unchanged scene.
\<close>

theorem expression_failure_falls_through:
  assumes "copy_expressions" and "has_expression parm_item"
    and "\<not> (copy_keyframes \<and> has_keyframes parm_item)"
    and "s (target_node, name parm_item) = Some pt"
    and "lock_test skip_locked (target_node, name parm_item) (parm parm_item) s = Inr False"
    and "copy_expression_step (parm parm_item) (target_node, name parm_item) s = None"
  shows "transfer_parameter parm_item target_node copy_expressions copy_keyframes skip_locked s
           = except_failed (copy_value_step parm_item (parm parm_item) (target_node, name parm_item) s)"
  using assms
  by (auto simp add: transfer_parameter_def node_parm_def try_body_def Let_def)

theorem expression_failure_falls_through_witness:
  "has_expression ty_item \<and> \<not> has_keyframes ty_item \<and>
   scene_ty (''/obj/b'', name ty_item) = Some ty_target \<and>
   lock_test True (''/obj/b'', name ty_item) (parm ty_item) scene_ty = Inr False \<and>
   parm_expression scene_ty (parm ty_item) = Inr ''ch(tx) * 2'' \<and>
   parm_expressionLanguage scene_ty (parm ty_item) = Inr Hscript \<and>
   parm_setExpression scene_ty (''/obj/b'', name ty_item) ''ch(tx) * 2'' Hscript = Inl OperationFailed \<and>
   copy_expression_step (parm ty_item) (''/obj/b'', name ty_item) scene_ty = None \<and>
   transfer_parameter ty_item ''/obj/b'' True True True scene_ty =
     (Inr Success, scene_ty((''/obj/b'', ''ty'') \<mapsto> ty_target\<lparr>raw := PyVal 9\<rparr>))"
  using expression_failure_falls_through
    [where s = scene_ty and target_node = "''/obj/b''" and parm_item = "ty_item"
       and pt = ty_target
       and skip_locked = True and copy_expressions = True and copy_keyframes = True]
  by (simp add: scene_ty_def example_defs api_defs transfer_defs)

text \<open>
  C3. When neither the keyframe branch nor the expression branch applies (both
  options off, or the descriptor without the flag), the target parameter exists
  and the lock test does not skip the pair: for a descriptor of type String the
  only value written to the target is the source's unexpanded string, as it is,
  and not its evaluated value; for every other type, Ramp among them, it is the
  evaluated value. The outcome is Success when the reading and the writing go
  through, and Failed with the scene unchanged when one of them raises.
\<close>

theorem plain_value_copy:
  assumes "\<not> (copy_keyframes \<and> has_keyframes parm_item)"
    and "\<not> (copy_expressions \<and> has_expression parm_item)"
    and "s (target_node, name parm_item) = Some pt"
    and "lock_test skip_locked (target_node, name parm_item) (parm parm_item) s = Inr False"
  shows "transfer_parameter parm_item target_node copy_expressions copy_keyframes skip_locked s =
     (if parm_template parm_item = String_type then
        (case parm_unexpandedString s (parm parm_item) of
           Inl e \<Rightarrow> (Inr Failed, s)
         | Inr str \<Rightarrow>
            (case refuses pt (Set (PyStr str)) of
               Some e \<Rightarrow> (Inr Failed, s)
             | None \<Rightarrow> (Inr Success, s((target_node, name parm_item) \<mapsto> pt\<lparr>raw := PyStr str\<rparr>))))
      else
        (case parm_eval s (parm parm_item) of
           Inl e \<Rightarrow> (Inr Failed, s)
         | Inr v \<Rightarrow>
            (case refuses pt (Set v) of
               Some e \<Rightarrow> (Inr Failed, s)
             | None \<Rightarrow> (Inr Success, s((target_node, name parm_item) \<mapsto> pt\<lparr>raw := v\<rparr>)))))"
  using assms
  by (auto simp add: transfer_parameter_def node_parm_def try_body_def Let_def copy_value_step_def
        except_failed_def parm_set_def split: sum.splits option.splits)

theorem plain_value_copy_witness:
  "parm_template color_item = String_type \<and>
   scene_color (''/obj/b'', name color_item) = Some color_target \<and>
   lock_test True (''/obj/b'', name color_item) (parm color_item) scene_color = Inr False \<and>
   parm_unexpandedString scene_color (parm color_item) = Inr ''$HIP/tex.png'' \<and>
   parm_eval scene_color (parm color_item) = Inr (PyStr ''/home/user/tex.png'') \<and>
   transfer_parameter color_item ''/obj/b'' False False True scene_color =
     (Inr Success,
      scene_color((''/obj/b'', ''color'') \<mapsto> color_target\<lparr>raw := PyStr ''$HIP/tex.png''\<rparr>))"
  using plain_value_copy
    [where s = scene_color and target_node = "''/obj/b''" and parm_item = "color_item"
       and pt = color_target
       and skip_locked = True and copy_expressions = False and copy_keyframes = False]
  by (simp add: scene_color_def example_defs api_defs lock_test_def)




text \<open>
  C10, as amended. Whatever the options and the outcome, a call of the transfer
  resolver leaves every parameter of the scene as it was, except possibly the
  parameter of the descriptor's name on the target node. So the source parameter
  is unchanged whenever it is not that parameter, and the whole source node is
  unchanged whenever the target node is another node.
\<close>

theorem transfer_changes_only_target:
  assumes "transfer_parameter parm_item target_node ce ck sl s = (r, s')"
  shows "(\<forall>h. h \<noteq> (target_node, name parm_item) \<longrightarrow> s' h = s h) \<and>
         (parm parm_item \<noteq> (target_node, name parm_item) \<longrightarrow>
            s' (parm parm_item) = s (parm parm_item)) \<and>
         (target_node \<noteq> fst (parm parm_item) \<longrightarrow>
            (\<forall>nm. s' (fst (parm parm_item), nm) = s (fst (parm parm_item), nm)))"
  using transfer_parameter_frame [OF assms] by auto

theorem transfer_changes_only_target_witness:
  "transfer_parameter scale_item ''/obj/b'' True True True scene_scale =
     (Inr Success,
      scene_scale((''/obj/b'', ''scale'') \<mapsto>
        scale_target\<lparr>stored_keyframes := [key 1 1, key 12 2, key 24 3]\<rparr>)) \<and>
   parm scale_item \<noteq> (''/obj/b'', name scale_item) \<and>
   ''/obj/b'' \<noteq> fst (parm scale_item) \<and>
   (scene_scale((''/obj/b'', ''scale'') \<mapsto>
        scale_target\<lparr>stored_keyframes := [key 1 1, key 12 2, key 24 3]\<rparr>)) (parm scale_item)
     = scene_scale (parm scale_item)"
proof -
  have run: "transfer_parameter scale_item ''/obj/b'' True True True scene_scale =
     (Inr Success,
      scene_scale((''/obj/b'', ''scale'') \<mapsto>
        scale_target\<lparr>stored_keyframes := [key 1 1, key 12 2, key 24 3]\<rparr>))"
    by (simp add: scene_scale_def example_defs api_defs transfer_defs)
  have other: "parm scale_item \<noteq> (''/obj/b'', name scale_item)"
    and node: "''/obj/b'' \<noteq> fst (parm scale_item)"
    by (simp_all add: example_defs)
  from transfer_changes_only_target [OF run] other
  have "(scene_scale((''/obj/b'', ''scale'') \<mapsto>
        scale_target\<lparr>stored_keyframes := [key 1 1, key 12 2, key 24 3]\<rparr>)) (parm scale_item)
     = scene_scale (parm scale_item)"
    by blast
  with run other node show ?thesis by blast
qed

text \<open>
  C10 as it is stated fails when the target node is the source node: the target
  parameter is then the source parameter, and the keyframe branch deletes the
  source's keyframes.
\<close>

theorem self_transfer_modifies_source:
  "parm scale_item = (''/obj/a'', ''scale'') \<and>
   scene_scale (''/obj/a'', ''scale'') = Some scale_source \<and>
   stored_keyframes scale_source = [key 1 1, key 12 2, key 24 3] \<and>
   snd (transfer_parameter scale_item ''/obj/a'' True True True scene_scale) (''/obj/a'', ''scale'')
     = Some (scale_source\<lparr>stored_keyframes := []\<rparr>) \<and>
   snd (transfer_parameter scale_item ''/obj/a'' True True True scene_scale) (''/obj/a'', ''scale'')
     \<noteq> scene_scale (''/obj/a'', ''scale'')"
  by (simp add: scene_scale_def example_defs api_defs transfer_defs)

section \<open>The batch\<close>

text \<open>
  C7. The batch does not always reach every pair. The first selected snapshot
  below is stale: the source node has lost the parameter since the snapshot was
  taken. With \<^verbatim>\<open>skip_locked\<close> set (the default of the panel), the lock test asks
  the stale handle before the \<^verbatim>\<open>try\<close>, the exception leaves
  \<^verbatim>\<open>_transfer_parameter\<close> and the loops, and the second pair is never processed.
  With \<^verbatim>\<open>skip_locked\<close> off, the same stale handle is first touched inside the
  \<^verbatim>\<open>try\<close>: the pair counts as Failed and the second pair is transferred.
\<close>

theorem stale_source_aborts_batch:
  "scene_stale (parm spare_item) = None \<and>
   scene_stale (''/obj/b'', name spare_item) = Some tx_target \<and>
   do_transfer [''/obj/b''] [spare_item, tx_item] True True True scene_stale
     = (Inl ObjectWasDeleted, scene_stale) \<and>
   do_transfer [''/obj/b''] [spare_item, tx_item] True True False scene_stale
     = (Inr (1, 0, 1), scene_stale((''/obj/b'', ''tx'') \<mapsto> tx_target\<lparr>raw := PyVal (9 / 2)\<rparr>))"
  by (simp add: scene_stale_def example_defs api_defs transfer_defs do_transfer_def
        count_result_def)

end
